theory Spec2Isabelle
  imports Main
begin

section \<open>Data model\<close>

text \<open>
  The services keep their records in document collections and talk to three libraries:
  the document store (Mongoose), bcrypt and the JWT signer. A collection is a list of
  documents in insertion order (a query returns the first match). The libraries' results
  are parameters of the operations that call them: \<open>bcrypt_hash\<close> is one call of
  \<^verbatim>\<open>bcrypt.hash(_, 10)\<close> (salted, so each call has its own function),
  \<open>bcrypt_compare\<close> is \<^verbatim>\<open>bcrypt.compare\<close>, \<open>sign\<close> is
  \<^verbatim>\<open>jwtService.sign\<close>, and every \<^verbatim>\<open>new Types.ObjectId().toString()\<close> is a
  string argument. Logging has no effect on results and is left out. Messages are
  written without their diacritics.
\<close>

text \<open>
  Modelled from the spec: the enum declaration \<^verbatim>\<open>user-role.enum\<close> is not among the
  sources; the members are those the sources name.
\<close>

datatype UserRole = ADMIN | ADMIN2 | COLABORADOR | PROVIDER | USER | COMPANY | ACCOUNTING | TREASURY

datatype error =
    BadRequestException string
  | NotFoundException string
  | ForbiddenException string
  | UnauthorizedException string
  | TypeError string

text \<open>
  An optional string field is \<open>string option\<close>: \<open>None\<close> is \<^verbatim>\<open>undefined\<close> or
  \<^verbatim>\<open>null\<close>. JavaScript's truthiness of such a value, as tested by \<^verbatim>\<open>if (x)\<close>,
  \<^verbatim>\<open>!x\<close> and \<^verbatim>\<open>x || y\<close>: the empty string is falsy too.

  A company id is also compared with \<^verbatim>\<open>!==\<close>, which tells \<^verbatim>\<open>undefined\<close> from
  \<^verbatim>\<open>null\<close>; it is a \<open>jsString\<close>, with \<open>Undefined\<close> for a key that an object or
  a JSON body does not have, and \<open>truthyJs\<close> is the same truthiness test on it.
\<close>

datatype jsString = Undefined | Null | Str string

fun truthy :: "string option \<Rightarrow> bool" where
  "truthy None = False"
| "truthy (Some s) = (s \<noteq> [])"

fun truthyJs :: "jsString \<Rightarrow> bool" where
  "truthyJs Undefined = False"
| "truthyJs Null = False"
| "truthyJs (Str s) = (s \<noteq> [])"

text \<open>
  Modelled from the spec: the entity and DTO declarations (\<^verbatim>\<open>user.entity\<close>,
  \<^verbatim>\<open>create-user.dto\<close>, \<^verbatim>\<open>update-user.dto\<close>) are not among the sources; the
  fields are those the services read and write. \<open>doc_id\<close> is the document's
  \<^verbatim>\<open>_id\<close>, \<open>dto_id\<close> the optional \<^verbatim>\<open>_id\<close> a caller of \<open>create\<close> may pass.
\<close>

record UserPublic =
  firstName :: "string option"
  lastName :: "string option"
  email :: string
  role :: UserRole
  companyId :: jsString
  isActive :: bool
  userId :: "string option"

record UserSecret = UserPublic +
  password :: string

record CreateUserDto = UserSecret +
  dto_id :: "string option"

record UserDocument = UserSecret +
  doc_id :: string

record UserResponse = UserPublic +
  resp_id :: string

text \<open>
  An update carries any subset of the fields: \<open>None\<close> (for the company id,
  \<open>Undefined\<close>) is a key the body does not have.
\<close>

record UpdateUserDto =
  upd_firstName :: "string option"
  upd_lastName :: "string option"
  upd_email :: "string option"
  upd_password :: "string option"
  upd_role :: "UserRole option"
  upd_companyId :: jsString
  upd_isActive :: "bool option"
  upd_userId :: "string option"

type_synonym users = "UserDocument list"

type_synonym 'a result = "(error + 'a) \<times> users"

section \<open>The document collection\<close>

text \<open>
  \<^verbatim>\<open>userModel.findOne({ email })\<close> and \<^verbatim>\<open>userModel.findById(id)\<close>. Emails and
  ids are compared as the strings they are; what the store does with a value it cannot
  cast to its key type is outside the model.
\<close>

definition findOneByEmail :: "string \<Rightarrow> ('a UserSecret_scheme) list \<Rightarrow> 'a UserSecret_scheme option" where
  "findOneByEmail e us = List.find (\<lambda>u. email u = e) us"

definition findById :: "string \<Rightarrow> users \<Rightarrow> UserDocument option" where
  "findById i us = List.find (\<lambda>u. doc_id u = i) us"

text \<open>\<^verbatim>\<open>{ $set: updateUserDto }\<close>: every key of the update replaces the document's field.\<close>

definition applySet :: "UpdateUserDto \<Rightarrow> UserDocument \<Rightarrow> UserDocument" where
  "applySet d u = u
     \<lparr> firstName := (case upd_firstName d of None \<Rightarrow> firstName u | Some v \<Rightarrow> Some v),
       lastName := (case upd_lastName d of None \<Rightarrow> lastName u | Some v \<Rightarrow> Some v),
       email := (case upd_email d of None \<Rightarrow> email u | Some v \<Rightarrow> v),
       role := (case upd_role d of None \<Rightarrow> role u | Some v \<Rightarrow> v),
       companyId := (if upd_companyId d = Undefined then companyId u else upd_companyId d),
       isActive := (case upd_isActive d of None \<Rightarrow> isActive u | Some v \<Rightarrow> v),
       userId := (case upd_userId d of None \<Rightarrow> userId u | Some v \<Rightarrow> Some v),
       password := (case upd_password d of None \<Rightarrow> password u | Some v \<Rightarrow> v) \<rparr>"

fun replaceFirst :: "('a \<Rightarrow> bool) \<Rightarrow> 'a \<Rightarrow> 'a list \<Rightarrow> 'a list" where
  "replaceFirst P v [] = []"
| "replaceFirst P v (x # xs) = (if P x then v # xs else x # replaceFirst P v xs)"

fun deleteFirst :: "('a \<Rightarrow> bool) \<Rightarrow> 'a list \<Rightarrow> 'a list" where
  "deleteFirst P [] = []"
| "deleteFirst P (x # xs) = (if P x then xs else x # deleteFirst P xs)"

text \<open>
  \<^verbatim>\<open>findByIdAndUpdate(id, { $set: d }, { new: true })\<close> returns the updated document,
  \<^verbatim>\<open>findByIdAndDelete(id)\<close> the deleted one; both return \<^verbatim>\<open>null\<close> and change
  nothing when no document has the id.
\<close>

definition findByIdAndUpdate :: "string \<Rightarrow> UpdateUserDto \<Rightarrow> users \<Rightarrow> UserDocument option \<times> users" where
  "findByIdAndUpdate i d us =
     (case findById i us of
        None \<Rightarrow> (None, us)
      | Some u \<Rightarrow> (Some (applySet d u), replaceFirst (\<lambda>x. doc_id x = i) (applySet d u) us))"

definition findByIdAndDelete :: "string \<Rightarrow> users \<Rightarrow> UserDocument option \<times> users" where
  "findByIdAndDelete i us =
     (case findById i us of
        None \<Rightarrow> (None, us)
      | Some u \<Rightarrow> (Some u, deleteFirst (\<lambda>x. doc_id x = i) us))"

section \<open>UsersService\<close>

text \<open>
  \<^verbatim>\<open>UsersService.create\<close> (the same text in both revisions of the service).
  \<open>newId\<close> is the \<^verbatim>\<open>_id\<close> the store generates when the DTO brings none.
\<close>

definition create :: "(string \<Rightarrow> string) \<Rightarrow> string \<Rightarrow> CreateUserDto \<Rightarrow> users \<Rightarrow> UserDocument result" where
  "create bcrypt_hash newId createUserDto us =
     (case findOneByEmail (email createUserDto) us of
        Some existingUser \<Rightarrow> (Inl (BadRequestException ''El email ya esta registrado''), us)
      | None \<Rightarrow>
          if role createUserDto = COMPANY \<and> \<not> truthyJs (companyId createUserDto)
          then (Inl (BadRequestException ''Se requiere companyId para usuarios de tipo COMPANY''), us)
          else
            let hashedPassword = bcrypt_hash (password createUserDto);
                createdUser =
                  \<lparr> firstName = firstName createUserDto,
                    lastName = lastName createUserDto,
                    email = email createUserDto,
                    role = role createUserDto,
                    companyId = (if truthyJs (companyId createUserDto) then companyId createUserDto else Null),
                    isActive = isActive createUserDto,
                    userId = userId createUserDto,
                    password = hashedPassword,
                    doc_id = (case dto_id createUserDto of Some i \<Rightarrow> i | None \<Rightarrow> newId) \<rparr>
            in (Inr createdUser, us @ [createdUser]))"

text \<open>\<^verbatim>\<open>UsersService.findOne(id)\<close>, \<^verbatim>\<open>findByEmail\<close>, \<^verbatim>\<open>update\<close> and \<^verbatim>\<open>remove\<close> of the
  revision without a current user.\<close>

definition findOne :: "string \<Rightarrow> users \<Rightarrow> UserDocument result" where
  "findOne i us =
     (case findById i us of
        None \<Rightarrow> (Inl (NotFoundException (''Usuario con ID '' @ i @ '' no encontrado'')), us)
      | Some user \<Rightarrow> (Inr user, us))"

definition findByEmail :: "string \<Rightarrow> users \<Rightarrow> UserDocument result" where
  "findByEmail e us =
     (case findOneByEmail e us of
        None \<Rightarrow> (Inl (NotFoundException (''Usuario con email '' @ e @ '' no encontrado'')), us)
      | Some user \<Rightarrow> (Inr user, us))"

text \<open>The password of an update is replaced by its hash when it is truthy.\<close>

definition hashUpdatePassword :: "(string \<Rightarrow> string) \<Rightarrow> UpdateUserDto \<Rightarrow> UpdateUserDto" where
  "hashUpdatePassword bcrypt_hash updateUserDto =
     (case upd_password updateUserDto of
        None \<Rightarrow> updateUserDto
      | Some p \<Rightarrow>
          if p \<noteq> [] then updateUserDto\<lparr>upd_password := Some (bcrypt_hash p)\<rparr>
          else updateUserDto)"

text \<open>The tail both revisions of \<open>update\<close> share: hash, \<^verbatim>\<open>findByIdAndUpdate\<close>, and
  the read of \<^verbatim>\<open>updatedUser._id\<close> for the log, which throws on \<^verbatim>\<open>null\<close>.\<close>

definition storeUpdate :: "(string \<Rightarrow> string) \<Rightarrow> string \<Rightarrow> UpdateUserDto \<Rightarrow> users \<Rightarrow> UserDocument result" where
  "storeUpdate bcrypt_hash i updateUserDto us =
     (case findByIdAndUpdate i (hashUpdatePassword bcrypt_hash updateUserDto) us of
        (None, us') \<Rightarrow> (Inl (TypeError ''Cannot read properties of null''), us')
      | (Some updatedUser, us') \<Rightarrow> (Inr updatedUser, us'))"

definition update :: "(string \<Rightarrow> string) \<Rightarrow> string \<Rightarrow> UpdateUserDto \<Rightarrow> users \<Rightarrow> UserDocument result" where
  "update bcrypt_hash i updateUserDto us =
     (case findById i us of
        None \<Rightarrow> (Inl (NotFoundException (''Usuario con ID '' @ i @ '' no encontrado'')), us)
      | Some user \<Rightarrow>
          if upd_role updateUserDto = Some COMPANY
             \<and> \<not> truthyJs (upd_companyId updateUserDto)
          then (Inl (BadRequestException ''Se requiere companyId para usuarios de tipo COMPANY''), us)
          else storeUpdate bcrypt_hash i updateUserDto us)"

definition remove :: "string \<Rightarrow> users \<Rightarrow> unit result" where
  "remove i us =
     (case findByIdAndDelete i us of
        (None, us') \<Rightarrow> (Inl (NotFoundException (''Usuario con ID '' @ i @ '' no encontrado'')), us')
      | (Some r, us') \<Rightarrow> (Inr (), us'))"

text \<open>
  The revision with a current user. The guard both \<open>findOne\<close> and its callers test:
  \<^verbatim>\<open>currentUser?.role === UserRole.COMPANY && user.companyId !== currentUser.companyId\<close>
  (on \<open>jsString\<close>, so \<^verbatim>\<open>null\<close> and \<^verbatim>\<open>undefined\<close> differ, as they do for
  \<^verbatim>\<open>!==\<close>).
\<close>

definition otherCompany :: "UserDocument option \<Rightarrow> UserDocument \<Rightarrow> bool" where
  "otherCompany currentUser user =
     (case currentUser of
        None \<Rightarrow> False
      | Some cu \<Rightarrow> role cu = COMPANY \<and> companyId user \<noteq> companyId cu)"

definition findOne_cu :: "string \<Rightarrow> UserDocument option \<Rightarrow> users \<Rightarrow> UserDocument result" where
  "findOne_cu i currentUser us =
     (case findById i us of
        None \<Rightarrow> (Inl (NotFoundException (''Usuario con ID '' @ i @ '' no encontrado'')), us)
      | Some user \<Rightarrow>
          if otherCompany currentUser user
          then (Inl (ForbiddenException ''You can only view users from your company''), us)
          else (Inr user, us))"

definition update_cu ::
  "(string \<Rightarrow> string) \<Rightarrow> string \<Rightarrow> UpdateUserDto \<Rightarrow> UserDocument option \<Rightarrow> users \<Rightarrow> UserDocument result" where
  "update_cu bcrypt_hash i updateUserDto currentUser us =
     (case findOne_cu i currentUser us of
        (Inl e, us') \<Rightarrow> (Inl e, us')
      | (Inr user, us') \<Rightarrow>
          if otherCompany currentUser user
          then (Inl (ForbiddenException ''You can only update users from your company''), us')
          else if (case currentUser of None \<Rightarrow> False | Some cu \<Rightarrow> role cu = COMPANY)
                  \<and> upd_role updateUserDto = Some ADMIN
          then (Inl (ForbiddenException ''You cannot assign the ADMIN role''), us')
          else if upd_role updateUserDto = Some COMPANY
                  \<and> \<not> truthyJs (upd_companyId updateUserDto)
          then (Inl (BadRequestException ''Se requiere companyId para usuarios de tipo COMPANY''), us')
          else storeUpdate bcrypt_hash i updateUserDto us')"

definition remove_cu :: "string \<Rightarrow> UserDocument option \<Rightarrow> users \<Rightarrow> unit result" where
  "remove_cu i currentUser us =
     (case findOne_cu i currentUser us of
        (Inl e, us') \<Rightarrow> (Inl e, us')
      | (Inr user, us') \<Rightarrow>
          if otherCompany currentUser user
          then (Inl (ForbiddenException ''You can only delete users from your company''), us')
          else
            (case findByIdAndDelete i us' of
               (None, us'') \<Rightarrow> (Inl (NotFoundException (''Usuario con ID '' @ i @ '' no encontrado'')), us'')
             | (Some r, us'') \<Rightarrow> (Inr (), us'')))"

section \<open>AuthService\<close>

text \<open>
  \<^verbatim>\<open>RegisterDto\<close>: the declared fields (email, password, name, type, role) and the three
  the service reads beside them (firstName, lastName, companyId), which a body may lack.
\<close>

record RegisterDto =
  reg_email :: string
  reg_password :: string
  reg_name :: string
  reg_type :: string
  reg_role :: UserRole
  reg_firstName :: "string option"
  reg_lastName :: "string option"
  reg_companyId :: jsString

text \<open>Modelled from the spec: \<^verbatim>\<open>login.dto\<close> is not among the sources; the service reads
  its email and password.\<close>

record LoginDto =
  login_email :: string
  login_password :: string

record JwtPayload =
  sub :: string
  jwt_email :: string
  jwt_role :: UserRole
  jwt_firstName :: "string option"
  jwt_lastName :: "string option"
  jwt_companyId :: jsString

record RegisterResult =
  access_token :: string
  res_user :: UserResponse

record LoginData =
  data_user :: UserResponse
  token :: string

record LoginResult =
  success :: bool
  data :: LoginData

text \<open>
  Modelled from the spec: \<^verbatim>\<open>provider.entity\<close> is not among the sources; the service
  reads from a provider the fields it reads from a user. The value \<open>validateUser\<close>
  returns is the document found; the constructor records the collection it came from.
\<close>

type_synonym ProviderDocument = UserDocument

type_synonym providers = "ProviderDocument list"

datatype Principal = FromUsers UserDocument | FromProviders ProviderDocument

fun document :: "Principal \<Rightarrow> UserDocument" where
  "document (FromUsers u) = u"
| "document (FromProviders p) = p"

text \<open>\<^verbatim>\<open>const { password, ...userResponse } = user.toObject()\<close>.\<close>

definition withoutPassword :: "UserDocument \<Rightarrow> UserResponse" where
  "withoutPassword u =
     \<lparr> firstName = firstName u, lastName = lastName u, email = email u, role = role u,
       companyId = companyId u, isActive = isActive u, userId = userId u, resp_id = doc_id u \<rparr>"

definition generateToken :: "(JwtPayload \<Rightarrow> string) \<Rightarrow> UserDocument \<Rightarrow> string" where
  "generateToken sign user =
     sign \<lparr> sub = doc_id user, jwt_email = email user, jwt_role = role user,
            jwt_firstName = firstName user, jwt_lastName = lastName user,
            jwt_companyId = (if truthyJs (companyId user) then companyId user else Null) \<rparr>"

text \<open>
  \<^verbatim>\<open>AuthService.register\<close>. \<open>companyOid\<close> and \<open>userOid\<close> are the two
  \<^verbatim>\<open>new Types.ObjectId().toString()\<close>; \<open>registerCreateDto\<close> is the argument of
  \<^verbatim>\<open>usersService.create\<close>, after the assignment to \<^verbatim>\<open>registerDto.companyId\<close>.
\<close>

definition isObjectIdString :: "string \<Rightarrow> bool" where
  "isObjectIdString s = (length s = 24 \<and> list_all (\<lambda>c. c \<in> set ''0123456789abcdef'') s)"

definition registerCreateDto :: "string \<Rightarrow> string \<Rightarrow> RegisterDto \<Rightarrow> CreateUserDto" where
  "registerCreateDto companyOid userOid registerDto =
     (let registerDto' =
            (if reg_role registerDto = COMPANY
             then registerDto\<lparr>reg_companyId := Str companyOid\<rparr>
             else registerDto)
      in \<lparr> firstName = reg_firstName registerDto',
           lastName = reg_lastName registerDto',
           email = reg_email registerDto',
           role = reg_role registerDto',
           companyId = reg_companyId registerDto',
           isActive = True,
           userId = Some userOid,
           password = reg_password registerDto',
           dto_id = None \<rparr>)"

definition register ::
  "(string \<Rightarrow> string) \<Rightarrow> (JwtPayload \<Rightarrow> string) \<Rightarrow> string \<Rightarrow> string \<Rightarrow> string
     \<Rightarrow> RegisterDto \<Rightarrow> users \<Rightarrow> RegisterResult result" where
  "register bcrypt_hash sign companyOid userOid newId registerDto us =
     (case findOneByEmail (reg_email registerDto) us of
        Some existingUser \<Rightarrow>
          (Inl (BadRequestException ''El correo electronico ya esta registrado''), us)
      | None \<Rightarrow>
          (case create bcrypt_hash newId (registerCreateDto companyOid userOid registerDto) us of
             (Inl e, us') \<Rightarrow> (Inl e, us')
           | (Inr user, us') \<Rightarrow>
               (Inr \<lparr> access_token = generateToken sign user, res_user = withoutPassword user \<rparr>,
                us')))"

definition validateUser ::
  "(string \<Rightarrow> string \<Rightarrow> bool) \<Rightarrow> string \<Rightarrow> string \<Rightarrow> users \<Rightarrow> providers \<Rightarrow> Principal option" where
  "validateUser bcrypt_compare e pw us ps =
     (case findOneByEmail e us of
        Some user \<Rightarrow>
          if \<not> bcrypt_compare pw (password user) then None else Some (FromUsers user)
      | None \<Rightarrow>
          (case findOneByEmail e ps of
             Some provider \<Rightarrow>
               if \<not> bcrypt_compare pw (password provider) then None
               else Some (FromProviders provider)
           | None \<Rightarrow> None))"

definition login ::
  "(string \<Rightarrow> string \<Rightarrow> bool) \<Rightarrow> (JwtPayload \<Rightarrow> string) \<Rightarrow> LoginDto \<Rightarrow> users \<Rightarrow> providers
     \<Rightarrow> error + LoginResult" where
  "login bcrypt_compare sign loginDto us ps =
     (case validateUser bcrypt_compare (login_email loginDto) (login_password loginDto) us ps of
        None \<Rightarrow> Inl (UnauthorizedException ''Credenciales invalidas'')
      | Some found \<Rightarrow>
          let user = document found in
          if \<not> isActive user then Inl (ForbiddenException ''La cuenta esta desactivada'')
          else Inr \<lparr> success = True,
                     data = \<lparr> data_user = withoutPassword user,
                              token = generateToken sign user \<rparr> \<rparr>)"

section \<open>ExpenseController and InvoiceController\<close>

text \<open>
  \<^verbatim>\<open>req.user\<close> is what the authentication guard attached to the request: \<open>req_id\<close> is
  its \<^verbatim>\<open>_id\<close>, \<open>req_sub\<close> its \<^verbatim>\<open>sub\<close>. A request without a user has \<open>None\<close>.

  Modelled from the spec: \<^verbatim>\<open>approval.dto\<close> is not among the sources; the DTO has the
  \<^verbatim>\<open>userId\<close> the controller writes and the optional reason of the workflow.
\<close>

record ReqUser =
  req_id :: "string option"
  req_sub :: "string option"
  req_companyId :: "string option"

record Request =
  user :: "ReqUser option"

record ApprovalDto =
  a_userId :: "string option"
  a_reason :: "string option"

text \<open>The \<^verbatim>\<open>if / else if / else\<close> that both handlers start with.\<close>

definition stampUserId :: "Request \<Rightarrow> ApprovalDto \<Rightarrow> ApprovalDto" where
  "stampUserId req approvalDto =
     (if (case user req of None \<Rightarrow> False | Some u \<Rightarrow> truthy (req_id u))
      then approvalDto\<lparr>a_userId := (case user req of None \<Rightarrow> None | Some u \<Rightarrow> req_id u)\<rparr>
      else if (case user req of None \<Rightarrow> False | Some u \<Rightarrow> truthy (req_sub u))
      then approvalDto\<lparr>a_userId := (case user req of None \<Rightarrow> None | Some u \<Rightarrow> req_sub u)\<rparr>
      else approvalDto)"

text \<open>
  The handlers return what the service returns; the service is a parameter.
  \<^verbatim>\<open>req.user.companyId\<close> throws when the request has no user.
\<close>

definition ExpenseController_approveInvoice ::
  "(string \<Rightarrow> ApprovalDto \<Rightarrow> string option \<Rightarrow> 'r) \<Rightarrow> string \<Rightarrow> ApprovalDto \<Rightarrow> Request \<Rightarrow> error + 'r" where
  "ExpenseController_approveInvoice expenseService_approveInvoice i approvalDto req =
     (let approvalDto' = stampUserId req approvalDto in
      case user req of
        None \<Rightarrow> Inl (TypeError ''Cannot read properties of undefined'')
      | Some u \<Rightarrow> Inr (expenseService_approveInvoice i approvalDto' (req_companyId u)))"

definition ExpenseController_rejectInvoice ::
  "(string \<Rightarrow> ApprovalDto \<Rightarrow> string option \<Rightarrow> 'r) \<Rightarrow> string \<Rightarrow> ApprovalDto \<Rightarrow> Request \<Rightarrow> error + 'r" where
  "ExpenseController_rejectInvoice expenseService_rejectInvoice i approvalDto req =
     (let approvalDto' = stampUserId req approvalDto in
      case user req of
        None \<Rightarrow> Inl (TypeError ''Cannot read properties of undefined'')
      | Some u \<Rightarrow> Inr (expenseService_rejectInvoice i approvalDto' (req_companyId u)))"

text \<open>\<^verbatim>\<open>InvoiceController.rejectInvoice(id, body)\<close>; \<open>body_rejectionReason\<close> is
  \<^verbatim>\<open>body.rejectionReason\<close>.\<close>

record RejectBody =
  body_rejectionReason :: "string option"

definition InvoiceController_rejectInvoice ::
  "(string \<Rightarrow> string option \<Rightarrow> 'r) \<Rightarrow> string \<Rightarrow> RejectBody \<Rightarrow> 'r" where
  "InvoiceController_rejectInvoice invoiceService_rejectInvoice i body =
     invoiceService_rejectInvoice i (body_rejectionReason body)"

section \<open>The rejection services\<close>

text \<open>
  Modelled from the spec: \<^verbatim>\<open>InvoiceService.rejectInvoice\<close> and
  \<^verbatim>\<open>ExpenseService.rejectInvoice\<close> are not among the sources (only the controllers that
  call them are), nor are the invoice and expense entities. By the spec a rejection is a
  status transition on an invoice or expense record that requires a reason, is refused as
  a bad request without one, answers not found for a missing record, and records the
  actor's identity and the reason.
\<close>

datatype RecordStatus = DRAFT | PENDING | APPROVED | REJECTED

record Invoice =
  inv_id :: string
  inv_status :: RecordStatus
  inv_rejectionReason :: "string option"

record Expense =
  exp_id :: string
  exp_companyId :: "string option"
  exp_status :: RecordStatus
  exp_rejectedBy :: "string option"
  exp_rejectionReason :: "string option"

definition InvoiceService_rejectInvoice ::
  "string \<Rightarrow> string option \<Rightarrow> Invoice list \<Rightarrow> (error + Invoice) \<times> Invoice list" where
  "InvoiceService_rejectInvoice i rejectionReason invoices =
     (if \<not> truthy rejectionReason
      then (Inl (BadRequestException ''Se requiere un motivo de rechazo''), invoices)
      else
        (case List.find (\<lambda>x. inv_id x = i) invoices of
           None \<Rightarrow> (Inl (NotFoundException (''Factura con ID '' @ i @ '' no encontrada'')), invoices)
         | Some invoice \<Rightarrow>
             let rejected = invoice\<lparr>inv_status := REJECTED, inv_rejectionReason := rejectionReason\<rparr>
             in (Inr rejected, replaceFirst (\<lambda>x. inv_id x = i) rejected invoices)))"

definition ExpenseService_rejectInvoice ::
  "string \<Rightarrow> ApprovalDto \<Rightarrow> string option \<Rightarrow> Expense list \<Rightarrow> (error + Expense) \<times> Expense list" where
  "ExpenseService_rejectInvoice i approvalDto cid expenses =
     (if \<not> truthy (a_reason approvalDto)
      then (Inl (BadRequestException ''Se requiere un motivo de rechazo''), expenses)
      else
        (case List.find (\<lambda>x. exp_id x = i \<and> exp_companyId x = cid) expenses of
           None \<Rightarrow> (Inl (NotFoundException (''Gasto con ID '' @ i @ '' no encontrado'')), expenses)
         | Some expense \<Rightarrow>
             let rejected = expense\<lparr>exp_status := REJECTED,
                                    exp_rejectedBy := a_userId approvalDto,
                                    exp_rejectionReason := a_reason approvalDto\<rparr>
             in (Inr rejected,
                 replaceFirst (\<lambda>x. exp_id x = i \<and> exp_companyId x = cid) rejected expenses)))"

text \<open>A reject request handled end to end: the controller from the sources, then the
  service.\<close>

definition rejectInvoiceRequest ::
  "string \<Rightarrow> RejectBody \<Rightarrow> Invoice list \<Rightarrow> (error + Invoice) \<times> Invoice list" where
  "rejectInvoiceRequest i body invoices =
     InvoiceController_rejectInvoice InvoiceService_rejectInvoice i body invoices"

definition rejectExpenseRequest ::
  "string \<Rightarrow> ApprovalDto \<Rightarrow> Request \<Rightarrow> Expense list \<Rightarrow> (error + Expense) \<times> Expense list" where
  "rejectExpenseRequest i approvalDto req expenses =
     (case ExpenseController_rejectInvoice ExpenseService_rejectInvoice i approvalDto req of
        Inl e \<Rightarrow> (Inl e, expenses)
      | Inr run \<Rightarrow> run expenses)"

section \<open>Sample data\<close>

definition alice :: UserDocument where
  "alice = \<lparr> firstName = Some ''Alice'', lastName = Some ''Rojas'', email = ''alice@acme.pe'',
             role = COMPANY, companyId = Str ''c1'', isActive = True, userId = Some ''a1'',
             password = ''$2b$10$alice-secret'', doc_id = ''u1'' \<rparr>"

definition bob :: UserDocument where
  "bob = \<lparr> firstName = Some ''Bob'', lastName = Some ''Luna'', email = ''bob@otra.pe'',
           role = USER, companyId = Str ''c2'', isActive = False, userId = Some ''b1'',
           password = ''$2b$10$bob-secret'', doc_id = ''u2'' \<rparr>"

definition carol :: CreateUserDto where
  "carol = \<lparr> firstName = Some ''Carol'', lastName = None, email = ''carol@acme.pe'',
             role = COMPANY, companyId = Undefined, isActive = True, userId = None,
             password = ''carol-secret'', dto_id = None \<rparr>"

definition noChange :: UpdateUserDto where
  "noChange = \<lparr> upd_firstName = None, upd_lastName = None, upd_email = None,
                upd_password = None, upd_role = None, upd_companyId = Undefined,
                upd_isActive = None, upd_userId = None \<rparr>"

definition salted :: "string \<Rightarrow> string" where
  "salted p = ''$2b$10$'' @ p"

definition matches :: "string \<Rightarrow> string \<Rightarrow> bool" where
  "matches p h = (h = ''$2b$10$'' @ p)"

definition signed :: "JwtPayload \<Rightarrow> string" where
  "signed payload = ''jwt.'' @ sub payload"

section \<open>Properties\<close>

lemma findById_None_iff: "findById i us = None \<longleftrightarrow> i \<notin> doc_id ` set us"
  by (auto simp: findById_def find_None_iff)

lemma findOneByEmail_None_iff: "findOneByEmail e us = None \<longleftrightarrow> e \<notin> email ` set us"
  by (auto simp: findOneByEmail_def find_None_iff)

lemma findOneByEmail_Some_iff: "(\<exists>u. findOneByEmail e us = Some u) \<longleftrightarrow> e \<in> email ` set us"
  using findOneByEmail_None_iff [of e us] by (cases "findOneByEmail e us") auto

lemma create_Inl: "create bcrypt_hash newId dto us = (Inl e, us') \<Longrightarrow> us' = us"
  by (auto simp: create_def Let_def split: option.splits if_splits)

lemma create_Inr:
  assumes "create bcrypt_hash newId dto us = (Inr u, us')"
  shows "us' = us @ [u]" and "email u = email dto" and "password u = bcrypt_hash (password dto)"
    and "email dto \<notin> email ` set us" and "role u = role dto"
    and "role dto = COMPANY \<Longrightarrow> companyId u = companyId dto \<and> truthyJs (companyId dto)"
  using assms
  by (auto simp: create_def Let_def findOneByEmail_None_iff split: option.splits if_splits)

lemma create_success:
  assumes "email dto \<notin> email ` set us" and "role dto = COMPANY \<longrightarrow> truthyJs (companyId dto)"
  shows "\<exists>u. create bcrypt_hash newId dto us = (Inr u, us @ [u])"
proof -
  from assms(1) have "findOneByEmail (email dto) us = None"
    by (simp add: findOneByEmail_None_iff)
  with assms(2) show ?thesis
    by (auto simp: create_def Let_def)
qed

lemma doc_id_applySet: "doc_id (applySet d u) = doc_id u"
  by (simp add: applySet_def)

lemma password_applySet:
  "password (applySet d u) = (case upd_password d of None \<Rightarrow> password u | Some v \<Rightarrow> v)"
  by (simp add: applySet_def)

lemma findById_replaceFirst:
  "findById i us = Some u \<Longrightarrow> doc_id v = i
     \<Longrightarrow> findById i (replaceFirst (\<lambda>x. doc_id x = i) v us) = Some v"
  by (induction us) (auto simp: findById_def)

lemma storeUpdate_found:
  assumes "findById i us = Some u"
  shows "storeUpdate bcrypt_hash i d us
           = (Inr (applySet (hashUpdatePassword bcrypt_hash d) u),
              replaceFirst (\<lambda>x. doc_id x = i) (applySet (hashUpdatePassword bcrypt_hash d) u) us)"
  using assms by (simp add: storeUpdate_def findByIdAndUpdate_def)

lemma hashUpdatePassword_truthy:
  "upd_password d = Some p \<Longrightarrow> p \<noteq> []
     \<Longrightarrow> upd_password (hashUpdatePassword bcrypt_hash d) = Some (bcrypt_hash p)"
  by (simp add: hashUpdatePassword_def)

lemma isObjectIdString_truthy: "isObjectIdString s \<Longrightarrow> truthyJs (Str s)"
  by (auto simp: isObjectIdString_def)

lemma replaceFirst_mem: "List.find P xs = Some x \<Longrightarrow> v \<in> set (replaceFirst P v xs)"
  by (induction xs) (auto split: if_splits)

lemma handlers_without_user:
  "user req = None \<Longrightarrow>
     ExpenseController_approveInvoice approveService i approvalDto req
       = Inl (TypeError ''Cannot read properties of undefined'')
     \<and> ExpenseController_rejectInvoice rejectService i approvalDto req
       = Inl (TypeError ''Cannot read properties of undefined'')"
  by (simp add: ExpenseController_approveInvoice_def ExpenseController_rejectInvoice_def)

lemma findById_doc_id: "findById i us = Some u \<Longrightarrow> doc_id u = i"
  by (auto simp: findById_def dest: find_Some_iff [THEN iffD1])

lemma update_found:
  assumes "findById i us = Some target"
    and "\<not> (upd_role d = Some COMPANY \<and> \<not> truthyJs (upd_companyId d))"
  shows "update bcrypt_hash i d us
           = (Inr (applySet (hashUpdatePassword bcrypt_hash d) target),
              replaceFirst (\<lambda>x. doc_id x = i) (applySet (hashUpdatePassword bcrypt_hash d) target) us)"
  using assms storeUpdate_found [OF assms(1), of bcrypt_hash d] by (auto simp: update_def)

lemma update_cu_found:
  assumes "findById i us = Some target"
    and "\<not> otherCompany currentUser target"
    and "\<not> ((case currentUser of None \<Rightarrow> False | Some cu \<Rightarrow> role cu = COMPANY) \<and> upd_role d = Some ADMIN)"
    and "\<not> (upd_role d = Some COMPANY \<and> \<not> truthyJs (upd_companyId d))"
  shows "update_cu bcrypt_hash i d currentUser us
           = (Inr (applySet (hashUpdatePassword bcrypt_hash d) target),
              replaceFirst (\<lambda>x. doc_id x = i) (applySet (hashUpdatePassword bcrypt_hash d) target) us)"
  using assms storeUpdate_found [OF assms(1), of bcrypt_hash d]
  by (auto simp: update_cu_def findOne_cu_def)

lemma update_Inr:
  assumes "update bcrypt_hash i d us = (Inr updated, us'')"
  shows "\<exists>target. findById i us = Some target
           \<and> updated = applySet (hashUpdatePassword bcrypt_hash d) target
           \<and> us'' = replaceFirst (\<lambda>x. doc_id x = i) updated us"
proof -
  from assms obtain target where f: "findById i us = Some target"
    and r: "storeUpdate bcrypt_hash i d us = (Inr updated, us'')"
    by (auto simp: update_def split: option.splits if_splits)
  from r show ?thesis
    using storeUpdate_found [OF f, of bcrypt_hash d] f by auto
qed

lemma update_cu_Inr:
  assumes "update_cu bcrypt_hash i d currentUser us = (Inr updated, us'')"
  shows "\<exists>target. findById i us = Some target
           \<and> updated = applySet (hashUpdatePassword bcrypt_hash d) target
           \<and> us'' = replaceFirst (\<lambda>x. doc_id x = i) updated us"
proof -
  from assms obtain target where f: "findById i us = Some target"
    and r: "storeUpdate bcrypt_hash i d us = (Inr updated, us'')"
    by (auto simp: update_cu_def findOne_cu_def split: option.splits if_splits)
  from r show ?thesis
    using storeUpdate_found [OF f, of bcrypt_hash d] f by auto
qed

lemma hashed_update_stored:
  assumes "findById i us = Some target" and "upd_password d = Some p" and "p \<noteq> []"
    and "updated = applySet (hashUpdatePassword bcrypt_hash d) target"
  shows "findById i (replaceFirst (\<lambda>x. doc_id x = i) updated us) = Some updated"
    and "password updated = bcrypt_hash p" and "doc_id updated = i"
proof -
  have t: "doc_id updated = i"
    using assms(1,4) findById_doc_id [of i us target] by (simp add: doc_id_applySet)
  then show "doc_id updated = i" .
  show "findById i (replaceFirst (\<lambda>x. doc_id x = i) updated us) = Some updated"
    using findById_replaceFirst [OF assms(1), of updated] t by simp
  show "password updated = bcrypt_hash p"
    using assms(2,3,4) by (simp add: password_applySet hashUpdatePassword_truthy)
qed

lemma update_empty_password:
  assumes "findById i us = Some target" and "upd_password d = Some []"
    and "\<not> (upd_role d = Some COMPANY \<and> \<not> truthyJs (upd_companyId d))"
  shows "\<exists>updated. update bcrypt_hash i d us
                      = (Inr updated, replaceFirst (\<lambda>x. doc_id x = i) updated us)
                    \<and> password updated = []"
  using assms storeUpdate_found [OF assms(1), of bcrypt_hash d]
  by (auto simp: update_def hashUpdatePassword_def password_applySet)

lemma otherCompany_null_undefined:
  "role cu = COMPANY \<Longrightarrow> companyId cu = Undefined \<Longrightarrow> companyId target = Null
     \<Longrightarrow> otherCompany (Some cu) target"
  by (simp add: otherCompany_def)

subsection \<open>Missing records\<close>

text \<open>
  C6. For every id that no stored user has, \<open>findOne\<close>, \<open>update\<close> and \<open>remove\<close>
  (in both revisions of the service) raise NotFoundException, and for every email that
  no stored user has, \<open>findByEmail\<close> raises NotFoundException; the store is the one
  the call started from.
\<close>

theorem missing_record_not_found:
  "(i \<notin> doc_id ` set us \<longrightarrow>
      findOne i us = (Inl (NotFoundException (''Usuario con ID '' @ i @ '' no encontrado'')), us)
    \<and> update bcrypt_hash i updateUserDto us
        = (Inl (NotFoundException (''Usuario con ID '' @ i @ '' no encontrado'')), us)
    \<and> remove i us = (Inl (NotFoundException (''Usuario con ID '' @ i @ '' no encontrado'')), us)
    \<and> findOne_cu i currentUser us
        = (Inl (NotFoundException (''Usuario con ID '' @ i @ '' no encontrado'')), us)
    \<and> update_cu bcrypt_hash i updateUserDto currentUser us
        = (Inl (NotFoundException (''Usuario con ID '' @ i @ '' no encontrado'')), us)
    \<and> remove_cu i currentUser us
        = (Inl (NotFoundException (''Usuario con ID '' @ i @ '' no encontrado'')), us))
   \<and> (e \<notin> email ` set us \<longrightarrow>
      findByEmail e us = (Inl (NotFoundException (''Usuario con email '' @ e @ '' no encontrado'')), us))"
proof (intro conjI impI)
  assume "i \<notin> doc_id ` set us"
  then have n: "findById i us = None"
    by (simp add: findById_None_iff)
  show "findOne i us = (Inl (NotFoundException (''Usuario con ID '' @ i @ '' no encontrado'')), us)"
    by (simp add: findOne_def n)
  show "update bcrypt_hash i updateUserDto us
        = (Inl (NotFoundException (''Usuario con ID '' @ i @ '' no encontrado'')), us)"
    by (simp add: update_def n)
  show "remove i us = (Inl (NotFoundException (''Usuario con ID '' @ i @ '' no encontrado'')), us)"
    by (simp add: remove_def findByIdAndDelete_def n)
  show c: "findOne_cu i currentUser us
        = (Inl (NotFoundException (''Usuario con ID '' @ i @ '' no encontrado'')), us)"
    by (simp add: findOne_cu_def n)
  show "update_cu bcrypt_hash i updateUserDto currentUser us
        = (Inl (NotFoundException (''Usuario con ID '' @ i @ '' no encontrado'')), us)"
    by (simp add: update_cu_def c)
  show "remove_cu i currentUser us
        = (Inl (NotFoundException (''Usuario con ID '' @ i @ '' no encontrado'')), us)"
    by (simp add: remove_cu_def c)
next
  assume "e \<notin> email ` set us"
  then have "findOneByEmail e us = None"
    by (simp add: findOneByEmail_None_iff)
  then show "findByEmail e us
        = (Inl (NotFoundException (''Usuario con email '' @ e @ '' no encontrado'')), us)"
    by (simp add: findByEmail_def)
qed

theorem missing_record_not_found_witness:
  "findOne ''u9'' [alice, bob] = (Inl (NotFoundException ''Usuario con ID u9 no encontrado''), [alice, bob])
   \<and> update salted ''u9'' noChange [alice, bob]
       = (Inl (NotFoundException ''Usuario con ID u9 no encontrado''), [alice, bob])
   \<and> remove ''u9'' [alice, bob] = (Inl (NotFoundException ''Usuario con ID u9 no encontrado''), [alice, bob])
   \<and> findOne_cu ''u9'' (Some alice) [alice, bob]
       = (Inl (NotFoundException ''Usuario con ID u9 no encontrado''), [alice, bob])
   \<and> update_cu salted ''u9'' noChange (Some alice) [alice, bob]
       = (Inl (NotFoundException ''Usuario con ID u9 no encontrado''), [alice, bob])
   \<and> remove_cu ''u9'' (Some alice) [alice, bob]
       = (Inl (NotFoundException ''Usuario con ID u9 no encontrado''), [alice, bob])
   \<and> findByEmail ''zoe@acme.pe'' [alice, bob]
       = (Inl (NotFoundException ''Usuario con email zoe@acme.pe no encontrado''), [alice, bob])"
  using missing_record_not_found [of "''u9''" "[alice, bob]" salted noChange "Some alice" "''zoe@acme.pe''"]
  by (simp add: alice_def bob_def)

subsection \<open>Company-scoped access\<close>

text \<open>
  C5. For every current user whose role is COMPANY and every stored target user whose
  companyId differs from the current user's, \<open>findOne\<close>, \<open>update\<close> and \<open>remove\<close>
  of the revision with a current user raise ForbiddenException and leave the stored
  users as they were.
\<close>

theorem company_scope_forbidden:
  assumes "findById i us = Some target"
    and "role cu = COMPANY"
    and "companyId target \<noteq> companyId cu"
  shows "findOne_cu i (Some cu) us
           = (Inl (ForbiddenException ''You can only view users from your company''), us)
       \<and> update_cu bcrypt_hash i updateUserDto (Some cu) us
           = (Inl (ForbiddenException ''You can only view users from your company''), us)
       \<and> remove_cu i (Some cu) us
           = (Inl (ForbiddenException ''You can only view users from your company''), us)"
proof -
  have f: "findOne_cu i (Some cu) us
           = (Inl (ForbiddenException ''You can only view users from your company''), us)"
    using assms by (simp add: findOne_cu_def otherCompany_def)
  then show ?thesis
    by (simp add: update_cu_def remove_cu_def)
qed

theorem company_scope_forbidden_witness:
  "findOne_cu ''u2'' (Some alice) [alice, bob]
     = (Inl (ForbiddenException ''You can only view users from your company''), [alice, bob])
   \<and> update_cu salted ''u2'' noChange (Some alice) [alice, bob]
     = (Inl (ForbiddenException ''You can only view users from your company''), [alice, bob])
   \<and> remove_cu ''u2'' (Some alice) [alice, bob]
     = (Inl (ForbiddenException ''You can only view users from your company''), [alice, bob])"
proof -
  have 1: "findById ''u2'' [alice, bob] = Some bob"
    by (simp add: findById_def alice_def bob_def)
  have 2: "role alice = COMPANY"
    by (simp add: alice_def)
  have 3: "companyId bob \<noteq> companyId alice"
    by (simp add: alice_def bob_def)
  show ?thesis
    using company_scope_forbidden [OF 1 2 3, of salted noChange] by simp
qed

subsection \<open>COMPANY users need a companyId\<close>

text \<open>
  C3. For every CreateUserDto whose role is COMPANY and whose companyId is falsy,
  \<open>create\<close> raises BadRequestException (for the email when it is taken, for the
  companyId otherwise) and persists nothing. For every UpdateUserDto whose role is
  COMPANY and whose companyId is falsy, \<open>update\<close> on a stored user raises
  BadRequestException and leaves the store as it was; in the revision with a current
  user the same holds once the company check has let the caller through.
\<close>

theorem company_requires_companyId:
  "(role createUserDto = COMPANY \<and> \<not> truthyJs (companyId createUserDto) \<longrightarrow>
      create bcrypt_hash newId createUserDto us
        = (Inl (BadRequestException
                  (if email createUserDto \<in> email ` set us
                   then ''El email ya esta registrado''
                   else ''Se requiere companyId para usuarios de tipo COMPANY'')), us))
   \<and> (upd_role updateUserDto = Some COMPANY \<and> \<not> truthyJs (upd_companyId updateUserDto)
        \<and> i \<in> doc_id ` set us \<longrightarrow>
      update bcrypt_hash i updateUserDto us
        = (Inl (BadRequestException ''Se requiere companyId para usuarios de tipo COMPANY''), us))
   \<and> (upd_role updateUserDto = Some COMPANY \<and> \<not> truthyJs (upd_companyId updateUserDto)
        \<and> findById i us = Some target \<and> \<not> otherCompany currentUser target \<longrightarrow>
      update_cu bcrypt_hash i updateUserDto currentUser us
        = (Inl (BadRequestException ''Se requiere companyId para usuarios de tipo COMPANY''), us))"
proof (intro conjI impI)
  assume a: "role createUserDto = COMPANY \<and> \<not> truthyJs (companyId createUserDto)"
  show "create bcrypt_hash newId createUserDto us
        = (Inl (BadRequestException
                  (if email createUserDto \<in> email ` set us
                   then ''El email ya esta registrado''
                   else ''Se requiere companyId para usuarios de tipo COMPANY'')), us)"
  proof (cases "findOneByEmail (email createUserDto) us")
    case None
    then have "email createUserDto \<notin> email ` set us"
      by (simp add: findOneByEmail_None_iff)
    with None a show ?thesis
      by (simp add: create_def)
  next
    case (Some existingUser)
    then have "email createUserDto \<in> email ` set us"
      using findOneByEmail_Some_iff [of "email createUserDto" us] by blast
    with Some show ?thesis
      by (simp add: create_def)
  qed
next
  assume a: "upd_role updateUserDto = Some COMPANY \<and> \<not> truthyJs (upd_companyId updateUserDto)
        \<and> i \<in> doc_id ` set us"
  then obtain user where "findById i us = Some user"
    using findById_None_iff [of i us] by (cases "findById i us") auto
  with a show "update bcrypt_hash i updateUserDto us
        = (Inl (BadRequestException ''Se requiere companyId para usuarios de tipo COMPANY''), us)"
    by (simp add: update_def)
next
  assume "upd_role updateUserDto = Some COMPANY \<and> \<not> truthyJs (upd_companyId updateUserDto)
        \<and> findById i us = Some target \<and> \<not> otherCompany currentUser target"
  then show "update_cu bcrypt_hash i updateUserDto currentUser us
        = (Inl (BadRequestException ''Se requiere companyId para usuarios de tipo COMPANY''), us)"
    by (simp add: update_cu_def findOne_cu_def)
qed

theorem company_requires_companyId_witness:
  "create salted ''u3'' carol [alice, bob]
     = (Inl (BadRequestException ''Se requiere companyId para usuarios de tipo COMPANY''), [alice, bob])
   \<and> update salted ''u2'' (noChange\<lparr>upd_role := Some COMPANY, upd_companyId := Str []\<rparr>) [alice, bob]
     = (Inl (BadRequestException ''Se requiere companyId para usuarios de tipo COMPANY''), [alice, bob])
   \<and> update_cu salted ''u1'' (noChange\<lparr>upd_role := Some COMPANY, upd_companyId := Str []\<rparr>)
       (Some alice) [alice, bob]
     = (Inl (BadRequestException ''Se requiere companyId para usuarios de tipo COMPANY''), [alice, bob])"
proof -
  let ?d = "noChange\<lparr>upd_role := Some COMPANY, upd_companyId := Str []\<rparr>"
  have c: "role carol = COMPANY \<and> \<not> truthyJs (companyId carol)"
    by (simp add: carol_def)
  have e: "email carol \<notin> email ` set [alice, bob]"
    by (simp add: carol_def alice_def bob_def)
  have d: "upd_role ?d = Some COMPANY \<and> \<not> truthyJs (upd_companyId ?d)"
    by (simp add: noChange_def)
  have u: "''u2'' \<in> doc_id ` set [alice, bob]"
    by (simp add: alice_def bob_def)
  have f: "findById ''u1'' [alice, bob] = Some alice \<and> \<not> otherCompany (Some alice) alice"
    by (simp add: findById_def otherCompany_def alice_def)
  note t = company_requires_companyId [of carol salted "''u3''" "[alice, bob]" ?d "''u2''" alice "Some alice"]
  have "create salted ''u3'' carol [alice, bob]
     = (Inl (BadRequestException
               (if email carol \<in> email ` set [alice, bob]
                then ''El email ya esta registrado''
                else ''Se requiere companyId para usuarios de tipo COMPANY'')), [alice, bob])"
    using t c by blast
  then have 1: "create salted ''u3'' carol [alice, bob]
     = (Inl (BadRequestException ''Se requiere companyId para usuarios de tipo COMPANY''), [alice, bob])"
    using e by simp
  have 2: "update salted ''u2'' ?d [alice, bob]
     = (Inl (BadRequestException ''Se requiere companyId para usuarios de tipo COMPANY''), [alice, bob])"
    using t d u by blast
  have 3: "update_cu salted ''u1'' ?d (Some alice) [alice, bob]
     = (Inl (BadRequestException ''Se requiere companyId para usuarios de tipo COMPANY''), [alice, bob])"
    using company_requires_companyId [of carol salted "''u3''" "[alice, bob]" ?d "''u1''" alice "Some alice"] d f
    by blast
  from 1 2 3 show ?thesis by blast
qed

subsection \<open>Unique emails\<close>

text \<open>
  C4. For every CreateUserDto and every RegisterDto whose email is the email of a stored
  user, \<open>create\<close> and \<open>register\<close> raise BadRequestException and the stored users are
  unchanged; hence neither operation ever turns a store with pairwise distinct emails
  into one with a repeated email.
\<close>

theorem email_unique:
  "(email createUserDto \<in> email ` set us \<longrightarrow>
      create bcrypt_hash newId createUserDto us
        = (Inl (BadRequestException ''El email ya esta registrado''), us))
   \<and> (reg_email registerDto \<in> email ` set us \<longrightarrow>
      register bcrypt_hash sign companyOid userOid newId registerDto us
        = (Inl (BadRequestException ''El correo electronico ya esta registrado''), us))
   \<and> (distinct (map email us) \<longrightarrow>
      distinct (map email (snd (create bcrypt_hash newId createUserDto us)))
      \<and> distinct (map email (snd (register bcrypt_hash sign companyOid userOid newId registerDto us))))"
proof (intro conjI impI)
  assume "email createUserDto \<in> email ` set us"
  then obtain existingUser where "findOneByEmail (email createUserDto) us = Some existingUser"
    using findOneByEmail_Some_iff [of "email createUserDto" us] by blast
  then show "create bcrypt_hash newId createUserDto us
        = (Inl (BadRequestException ''El email ya esta registrado''), us)"
    by (simp add: create_def)
next
  assume "reg_email registerDto \<in> email ` set us"
  then obtain existingUser where "findOneByEmail (reg_email registerDto) us = Some existingUser"
    using findOneByEmail_Some_iff [of "reg_email registerDto" us] by blast
  then show "register bcrypt_hash sign companyOid userOid newId registerDto us
        = (Inl (BadRequestException ''El correo electronico ya esta registrado''), us)"
    by (simp add: register_def)
next
  assume d: "distinct (map email us)"
  have c: "distinct (map email (snd (create h n dto us)))" for h n dto
  proof (cases "create h n dto us")
    case (Pair r us')
    show ?thesis
    proof (cases r)
      case (Inl e)
      with Pair d show ?thesis
        using create_Inl [of h n dto us e us'] by simp
    next
      case (Inr u)
      with Pair d show ?thesis
        using create_Inr(1,2,4) [of h n dto us u us'] by auto
    qed
  qed
  show "distinct (map email (snd (create bcrypt_hash newId createUserDto us)))"
    by (rule c)
  show "distinct (map email (snd (register bcrypt_hash sign companyOid userOid newId registerDto us)))"
  proof (cases "findOneByEmail (reg_email registerDto) us")
    case None
    let ?dto = "registerCreateDto companyOid userOid registerDto"
    have "snd (register bcrypt_hash sign companyOid userOid newId registerDto us)
          = snd (create bcrypt_hash newId ?dto us)"
      using None by (auto simp: register_def split: prod.splits sum.splits)
    then show ?thesis
      using c [of bcrypt_hash newId ?dto] by simp
  next
    case (Some existingUser)
    with d show ?thesis
      by (simp add: register_def)
  qed
qed

theorem email_unique_witness:
  "create salted ''u3'' (carol\<lparr>email := ''alice@acme.pe''\<rparr>) [alice, bob]
     = (Inl (BadRequestException ''El email ya esta registrado''), [alice, bob])
   \<and> register salted signed (replicate 24 CHR ''a'') (replicate 24 CHR ''b'') ''u3''
        \<lparr> reg_email = ''bob@otra.pe'', reg_password = ''secret'', reg_name = ''Bob'',
          reg_type = ''normal'', reg_role = USER, reg_firstName = None, reg_lastName = None,
          reg_companyId = Undefined \<rparr> [alice, bob]
     = (Inl (BadRequestException ''El correo electronico ya esta registrado''), [alice, bob])
   \<and> distinct (map email (snd (create salted ''u3'' (carol\<lparr>email := ''alice@acme.pe''\<rparr>) [alice, bob])))"
proof -
  let ?r = "\<lparr> reg_email = ''bob@otra.pe'', reg_password = ''secret'', reg_name = ''Bob'',
          reg_type = ''normal'', reg_role = USER, reg_firstName = None, reg_lastName = None,
          reg_companyId = Undefined \<rparr>"
  have 1: "email (carol\<lparr>email := ''alice@acme.pe''\<rparr>) \<in> email ` set [alice, bob]"
    by (simp add: alice_def)
  have 2: "reg_email ?r \<in> email ` set [alice, bob]"
    by (simp add: bob_def)
  have 3: "distinct (map email [alice, bob])"
    by (simp add: alice_def bob_def)
  show ?thesis
    using email_unique [of "carol\<lparr>email := ''alice@acme.pe''\<rparr>" "[alice, bob]" salted "''u3''" ?r
        signed "replicate 24 CHR ''a''" "replicate 24 CHR ''b''"] 1 2 3
    by blast
qed

subsection \<open>Stored passwords\<close>

text \<open>
  C8, as amended. Every user record that \<open>create\<close> persists stores the bcrypt hash of
  the submitted password (so never the submitted password itself, as long as bcrypt's
  output differs from its input), and \<open>create\<close> does persist one whenever the email is
  free and a COMPANY user brings a companyId. Whenever an update carries a non-empty
  password, \<open>update\<close>, in both revisions, succeeds on a stored user that passes its
  checks, and what it returns and stores under that id has the hash of that password
  in its place.
\<close>

theorem passwords_stored_hashed:
  "(create bcrypt_hash newId createUserDto us = (Inr created, us') \<longrightarrow>
      us' = us @ [created]
      \<and> password created = bcrypt_hash (password createUserDto)
      \<and> (bcrypt_hash (password createUserDto) \<noteq> password createUserDto
           \<longrightarrow> password created \<noteq> password createUserDto))
   \<and> (email createUserDto \<notin> email ` set us
        \<and> (role createUserDto = COMPANY \<longrightarrow> truthyJs (companyId createUserDto)) \<longrightarrow>
      (\<exists>u. create bcrypt_hash newId createUserDto us = (Inr u, us @ [u])
           \<and> password u = bcrypt_hash (password createUserDto)))
   \<and> (upd_password updateUserDto = Some p \<and> p \<noteq> [] \<and> findById i us = Some target
        \<and> \<not> (upd_role updateUserDto = Some COMPANY \<and> \<not> truthyJs (upd_companyId updateUserDto)) \<longrightarrow>
      (\<exists>updated.
           update bcrypt_hash i updateUserDto us
             = (Inr updated, replaceFirst (\<lambda>x. doc_id x = i) updated us)
           \<and> findById i (replaceFirst (\<lambda>x. doc_id x = i) updated us) = Some updated
           \<and> doc_id updated = i
           \<and> password updated = bcrypt_hash p))
   \<and> (upd_password updateUserDto = Some p \<and> p \<noteq> [] \<and> findById i us = Some target
        \<and> \<not> otherCompany currentUser target
        \<and> \<not> ((case currentUser of None \<Rightarrow> False | Some cu \<Rightarrow> role cu = COMPANY)
               \<and> upd_role updateUserDto = Some ADMIN)
        \<and> \<not> (upd_role updateUserDto = Some COMPANY \<and> \<not> truthyJs (upd_companyId updateUserDto)) \<longrightarrow>
      (\<exists>updated.
           update_cu bcrypt_hash i updateUserDto currentUser us
             = (Inr updated, replaceFirst (\<lambda>x. doc_id x = i) updated us)
           \<and> findById i (replaceFirst (\<lambda>x. doc_id x = i) updated us) = Some updated
           \<and> doc_id updated = i
           \<and> password updated = bcrypt_hash p))
   \<and> (upd_password updateUserDto = Some p \<and> p \<noteq> []
        \<and> (update bcrypt_hash i updateUserDto us = (Inr stored, us'')
            \<or> update_cu bcrypt_hash i updateUserDto currentUser us = (Inr stored, us'')) \<longrightarrow>
      findById i us'' = Some stored \<and> password stored = bcrypt_hash p)"
proof (intro conjI impI)
  assume a: "create bcrypt_hash newId createUserDto us = (Inr created, us')"
  show "us' = us @ [created]"
    using create_Inr(1) [OF a] .
  show h: "password created = bcrypt_hash (password createUserDto)"
    using create_Inr(3) [OF a] .
  show "password created \<noteq> password createUserDto"
    if "bcrypt_hash (password createUserDto) \<noteq> password createUserDto"
    using that h by simp
next
  assume "email createUserDto \<notin> email ` set us
        \<and> (role createUserDto = COMPANY \<longrightarrow> truthyJs (companyId createUserDto))"
  then obtain u where u: "create bcrypt_hash newId createUserDto us = (Inr u, us @ [u])"
    using create_success [of createUserDto us bcrypt_hash newId] by blast
  then show "\<exists>u. create bcrypt_hash newId createUserDto us = (Inr u, us @ [u])
           \<and> password u = bcrypt_hash (password createUserDto)"
    using create_Inr(3) [OF u] by blast
next
  assume a: "upd_password updateUserDto = Some p \<and> p \<noteq> [] \<and> findById i us = Some target
        \<and> \<not> (upd_role updateUserDto = Some COMPANY \<and> \<not> truthyJs (upd_companyId updateUserDto))"
  let ?v = "applySet (hashUpdatePassword bcrypt_hash updateUserDto) target"
  have "update bcrypt_hash i updateUserDto us = (Inr ?v, replaceFirst (\<lambda>x. doc_id x = i) ?v us)"
    using a update_found [of i us target updateUserDto bcrypt_hash] by blast
  moreover have "findById i (replaceFirst (\<lambda>x. doc_id x = i) ?v us) = Some ?v"
    and "password ?v = bcrypt_hash p" and "doc_id ?v = i"
    using a hashed_update_stored [of i us target updateUserDto p ?v bcrypt_hash] by simp_all
  ultimately show "\<exists>updated.
           update bcrypt_hash i updateUserDto us
             = (Inr updated, replaceFirst (\<lambda>x. doc_id x = i) updated us)
           \<and> findById i (replaceFirst (\<lambda>x. doc_id x = i) updated us) = Some updated
           \<and> doc_id updated = i
           \<and> password updated = bcrypt_hash p"
    by blast
next
  assume a: "upd_password updateUserDto = Some p \<and> p \<noteq> [] \<and> findById i us = Some target
        \<and> \<not> otherCompany currentUser target
        \<and> \<not> ((case currentUser of None \<Rightarrow> False | Some cu \<Rightarrow> role cu = COMPANY)
               \<and> upd_role updateUserDto = Some ADMIN)
        \<and> \<not> (upd_role updateUserDto = Some COMPANY \<and> \<not> truthyJs (upd_companyId updateUserDto))"
  let ?v = "applySet (hashUpdatePassword bcrypt_hash updateUserDto) target"
  have "update_cu bcrypt_hash i updateUserDto currentUser us
          = (Inr ?v, replaceFirst (\<lambda>x. doc_id x = i) ?v us)"
    using a update_cu_found [of i us target currentUser updateUserDto bcrypt_hash] by blast
  moreover have "findById i (replaceFirst (\<lambda>x. doc_id x = i) ?v us) = Some ?v"
    and "password ?v = bcrypt_hash p" and "doc_id ?v = i"
    using a hashed_update_stored [of i us target updateUserDto p ?v bcrypt_hash] by simp_all
  ultimately show "\<exists>updated.
           update_cu bcrypt_hash i updateUserDto currentUser us
             = (Inr updated, replaceFirst (\<lambda>x. doc_id x = i) updated us)
           \<and> findById i (replaceFirst (\<lambda>x. doc_id x = i) updated us) = Some updated
           \<and> doc_id updated = i
           \<and> password updated = bcrypt_hash p"
    by blast
next
  assume a: "upd_password updateUserDto = Some p \<and> p \<noteq> []
        \<and> (update bcrypt_hash i updateUserDto us = (Inr stored, us'')
            \<or> update_cu bcrypt_hash i updateUserDto currentUser us = (Inr stored, us''))"
  then obtain target where f: "findById i us = Some target"
    and v: "stored = applySet (hashUpdatePassword bcrypt_hash updateUserDto) target"
    and w: "us'' = replaceFirst (\<lambda>x. doc_id x = i) stored us"
    using update_Inr [of bcrypt_hash i updateUserDto us stored us'']
      update_cu_Inr [of bcrypt_hash i updateUserDto currentUser us stored us'']
    by blast
  show "findById i us'' = Some stored"
    using a f v w hashed_update_stored(1) [of i us target updateUserDto p stored bcrypt_hash] by simp
  show "password stored = bcrypt_hash p"
    using a f v hashed_update_stored(2) [of i us target updateUserDto p stored bcrypt_hash] by simp
qed

theorem passwords_stored_hashed_witness:
  "(\<exists>u. create salted ''u3'' (carol\<lparr>companyId := Str ''c1''\<rparr>) [alice, bob] = (Inr u, [alice, bob] @ [u])
        \<and> password u = ''$2b$10$carol-secret'' \<and> password u \<noteq> password carol)
   \<and> (\<exists>updated. update salted ''u2'' (noChange\<lparr>upd_password := Some ''new-secret''\<rparr>) [alice, bob]
                    = (Inr updated, replaceFirst (\<lambda>x. doc_id x = ''u2'') updated [alice, bob])
        \<and> findById ''u2'' (replaceFirst (\<lambda>x. doc_id x = ''u2'') updated [alice, bob]) = Some updated
        \<and> password updated = ''$2b$10$new-secret'')
   \<and> (\<exists>updated. update_cu salted ''u1'' (noChange\<lparr>upd_password := Some ''new-secret''\<rparr>) (Some alice) [alice, bob]
                    = (Inr updated, replaceFirst (\<lambda>x. doc_id x = ''u1'') updated [alice, bob])
        \<and> findById ''u1'' (replaceFirst (\<lambda>x. doc_id x = ''u1'') updated [alice, bob]) = Some updated
        \<and> password updated = ''$2b$10$new-secret'')
   \<and> update_cu salted ''u1'' (noChange\<lparr>upd_password := Some ''new-secret''\<rparr>) (Some alice) [alice, bob]
        = (Inr (alice\<lparr>password := ''$2b$10$new-secret''\<rparr>), [alice\<lparr>password := ''$2b$10$new-secret''\<rparr>, bob])
   \<and> findById ''u1'' [alice\<lparr>password := ''$2b$10$new-secret''\<rparr>, bob]
        = Some (alice\<lparr>password := ''$2b$10$new-secret''\<rparr>)"
proof -
  let ?c = "carol\<lparr>companyId := Str ''c1''\<rparr>"
  let ?d = "noChange\<lparr>upd_password := Some ''new-secret''\<rparr>"
  let ?a = "alice\<lparr>password := ''$2b$10$new-secret''\<rparr>"
  have c1: "email ?c \<notin> email ` set [alice, bob] \<and> (role ?c = COMPANY \<longrightarrow> truthyJs (companyId ?c))"
    by (simp add: carol_def alice_def bob_def)
  from passwords_stored_hashed [where bcrypt_hash = salted and newId = "''u3''" and createUserDto = ?c
      and us = "[alice, bob]"] c1
  obtain u where u: "create salted ''u3'' ?c [alice, bob] = (Inr u, [alice, bob] @ [u])"
    and pu: "password u = salted (password ?c)"
    by blast
  have h: "salted (password ?c) \<noteq> password ?c"
    by (simp add: salted_def carol_def)
  from passwords_stored_hashed [where bcrypt_hash = salted and newId = "''u3''" and createUserDto = ?c
      and us = "[alice, bob]" and created = u and us' = "[alice, bob] @ [u]"] u h
  have "password u \<noteq> password ?c"
    by blast
  with u pu have 1: "\<exists>u. create salted ''u3'' ?c [alice, bob] = (Inr u, [alice, bob] @ [u])
        \<and> password u = ''$2b$10$carol-secret'' \<and> password u \<noteq> password carol"
    by (auto simp: salted_def carol_def)
  have d: "upd_password ?d = Some ''new-secret'' \<and> ''new-secret'' \<noteq> [] \<and> findById ''u2'' [alice, bob] = Some bob
        \<and> \<not> (upd_role ?d = Some COMPANY \<and> \<not> truthyJs (upd_companyId ?d))"
    by (simp add: noChange_def findById_def alice_def bob_def)
  from passwords_stored_hashed [where bcrypt_hash = salted and updateUserDto = ?d and p = "''new-secret''"
      and i = "''u2''" and us = "[alice, bob]" and target = bob] d
  have "\<exists>updated. update salted ''u2'' ?d [alice, bob]
                    = (Inr updated, replaceFirst (\<lambda>x. doc_id x = ''u2'') updated [alice, bob])
        \<and> findById ''u2'' (replaceFirst (\<lambda>x. doc_id x = ''u2'') updated [alice, bob]) = Some updated
        \<and> password updated = salted ''new-secret''"
    by blast
  then have 2: "\<exists>updated. update salted ''u2'' ?d [alice, bob]
                    = (Inr updated, replaceFirst (\<lambda>x. doc_id x = ''u2'') updated [alice, bob])
        \<and> findById ''u2'' (replaceFirst (\<lambda>x. doc_id x = ''u2'') updated [alice, bob]) = Some updated
        \<and> password updated = ''$2b$10$new-secret''"
    by (simp add: salted_def)
  have g: "upd_password ?d = Some ''new-secret'' \<and> ''new-secret'' \<noteq> [] \<and> findById ''u1'' [alice, bob] = Some alice
        \<and> \<not> otherCompany (Some alice) alice
        \<and> \<not> ((case Some alice of None \<Rightarrow> False | Some cu \<Rightarrow> role cu = COMPANY) \<and> upd_role ?d = Some ADMIN)
        \<and> \<not> (upd_role ?d = Some COMPANY \<and> \<not> truthyJs (upd_companyId ?d))"
    by (simp add: noChange_def findById_def otherCompany_def alice_def)
  from passwords_stored_hashed [where bcrypt_hash = salted and updateUserDto = ?d and p = "''new-secret''"
      and i = "''u1''" and us = "[alice, bob]" and target = alice and currentUser = "Some alice"] g
  have "\<exists>updated. update_cu salted ''u1'' ?d (Some alice) [alice, bob]
                    = (Inr updated, replaceFirst (\<lambda>x. doc_id x = ''u1'') updated [alice, bob])
        \<and> findById ''u1'' (replaceFirst (\<lambda>x. doc_id x = ''u1'') updated [alice, bob]) = Some updated
        \<and> password updated = salted ''new-secret''"
    by blast
  then have 3: "\<exists>updated. update_cu salted ''u1'' ?d (Some alice) [alice, bob]
                    = (Inr updated, replaceFirst (\<lambda>x. doc_id x = ''u1'') updated [alice, bob])
        \<and> findById ''u1'' (replaceFirst (\<lambda>x. doc_id x = ''u1'') updated [alice, bob]) = Some updated
        \<and> password updated = ''$2b$10$new-secret''"
    by (simp add: salted_def)
  have e: "update_cu salted ''u1'' ?d (Some alice) [alice, bob] = (Inr ?a, [?a, bob])"
    by (simp add: update_cu_def findOne_cu_def findById_def otherCompany_def storeUpdate_def
        findByIdAndUpdate_def hashUpdatePassword_def applySet_def alice_def bob_def noChange_def
        salted_def)
  have p: "upd_password ?d = Some ''new-secret'' \<and> ''new-secret'' \<noteq> []"
    by (simp add: noChange_def)
  from passwords_stored_hashed [where bcrypt_hash = salted and updateUserDto = ?d and p = "''new-secret''"
      and i = "''u1''" and currentUser = "Some alice" and us = "[alice, bob]" and stored = ?a
      and us'' = "[?a, bob]"] p e
  have 4: "findById ''u1'' [?a, bob] = Some ?a"
    by blast
  from 1 2 3 e 4 show ?thesis
    by blast
qed

text \<open>
  C8 as first stated, for every update that carries a password, fails at the empty
  password: \<^verbatim>\<open>if (updateUserDto.password)\<close> skips the hash and \<^verbatim>\<open>$set\<close> stores the
  empty string as it came, in both revisions.
\<close>

theorem empty_password_stored_unhashed:
  "upd_password (noChange\<lparr>upd_password := Some []\<rparr>) = Some []
   \<and> update salted ''u2'' (noChange\<lparr>upd_password := Some []\<rparr>) [alice, bob]
       = (Inr (bob\<lparr>password := []\<rparr>), [alice, bob\<lparr>password := []\<rparr>])
   \<and> update_cu salted ''u2'' (noChange\<lparr>upd_password := Some []\<rparr>) None [alice, bob]
       = (Inr (bob\<lparr>password := []\<rparr>), [alice, bob\<lparr>password := []\<rparr>])
   \<and> password (bob\<lparr>password := []\<rparr>) \<noteq> salted []"
  by (simp add: update_def update_cu_def findOne_cu_def findById_def otherCompany_def storeUpdate_def
      findByIdAndUpdate_def hashUpdatePassword_def applySet_def alice_def bob_def noChange_def
      salted_def)

subsection \<open>Registration of COMPANY users\<close>

text \<open>
  C9. For every RegisterDto with role COMPANY, \<open>register\<close> hands \<open>create\<close> a DTO whose
  companyId is the freshly generated ObjectId string (24 hexadecimal digits, hence
  truthy), so neither that call of \<open>create\<close> nor \<open>register\<close> ever ends in the
  BadRequestException that asks for a companyId: \<open>register\<close> either refuses a taken
  email or stores the new COMPANY user with that companyId.
\<close>

theorem register_company_never_lacks_companyId:
  assumes "reg_role registerDto = COMPANY"
    and "isObjectIdString companyOid"
  shows "companyId (registerCreateDto companyOid userOid registerDto) = Str companyOid
       \<and> role (registerCreateDto companyOid userOid registerDto) = COMPANY
       \<and> truthyJs (companyId (registerCreateDto companyOid userOid registerDto))
       \<and> fst (create bcrypt_hash newId (registerCreateDto companyOid userOid registerDto) us)
           \<noteq> Inl (BadRequestException ''Se requiere companyId para usuarios de tipo COMPANY'')
       \<and> fst (register bcrypt_hash sign companyOid userOid newId registerDto us)
           \<noteq> Inl (BadRequestException ''Se requiere companyId para usuarios de tipo COMPANY'')
       \<and> (if reg_email registerDto \<in> email ` set us
           then register bcrypt_hash sign companyOid userOid newId registerDto us
                  = (Inl (BadRequestException ''El correo electronico ya esta registrado''), us)
           else (\<exists>created.
                  register bcrypt_hash sign companyOid userOid newId registerDto us
                    = (Inr \<lparr> access_token = generateToken sign created,
                             res_user = withoutPassword created \<rparr>, us @ [created])
                  \<and> role created = COMPANY \<and> companyId created = Str companyOid))"
proof -
  let ?dto = "registerCreateDto companyOid userOid registerDto"
  have c: "companyId ?dto = Str companyOid" and r: "role ?dto = COMPANY"
    and e: "email ?dto = reg_email registerDto"
    using assms(1) by (simp_all add: registerCreateDto_def)
  have t: "truthyJs (companyId ?dto)"
    using c isObjectIdString_truthy [OF assms(2)] by simp
  have n: "fst (create bcrypt_hash newId ?dto us)
           \<noteq> Inl (BadRequestException ''Se requiere companyId para usuarios de tipo COMPANY'')"
    using t by (auto simp: create_def Let_def split: option.splits)
  have k: "if reg_email registerDto \<in> email ` set us
           then register bcrypt_hash sign companyOid userOid newId registerDto us
                  = (Inl (BadRequestException ''El correo electronico ya esta registrado''), us)
           else (\<exists>created.
                  register bcrypt_hash sign companyOid userOid newId registerDto us
                    = (Inr \<lparr> access_token = generateToken sign created,
                             res_user = withoutPassword created \<rparr>, us @ [created])
                  \<and> role created = COMPANY \<and> companyId created = Str companyOid)"
  proof (cases "reg_email registerDto \<in> email ` set us")
    case True
    then obtain existingUser where "findOneByEmail (reg_email registerDto) us = Some existingUser"
      using findOneByEmail_Some_iff [of "reg_email registerDto" us] by blast
    with True show ?thesis
      by (simp add: register_def)
  next
    case False
    then have f: "findOneByEmail (reg_email registerDto) us = None"
      by (simp add: findOneByEmail_None_iff)
    from False e t obtain created where
      u: "create bcrypt_hash newId ?dto us = (Inr created, us @ [created])"
      using create_success [of ?dto us bcrypt_hash newId] by auto
    have "role created = COMPANY" and "companyId created = Str companyOid"
      using create_Inr(5,6) [OF u] r c by simp_all
    with False f u show ?thesis
      by (simp add: register_def)
  qed
  have "fst (register bcrypt_hash sign companyOid userOid newId registerDto us)
           \<noteq> Inl (BadRequestException ''Se requiere companyId para usuarios de tipo COMPANY'')"
    using k by (auto split: if_splits)
  with c r t n k show ?thesis
    by blast
qed

theorem register_company_never_lacks_companyId_witness:
  "companyId (registerCreateDto ''65f1a2b3c4d5e6f708192a3b'' ''65f1a2b3c4d5e6f708192a3c''
       \<lparr> reg_email = ''carol@acme.pe'', reg_password = ''secret'', reg_name = ''Carol'',
         reg_type = ''normal'', reg_role = COMPANY, reg_firstName = None, reg_lastName = None,
         reg_companyId = Undefined \<rparr>) = Str ''65f1a2b3c4d5e6f708192a3b''
   \<and> fst (register salted signed ''65f1a2b3c4d5e6f708192a3b'' ''65f1a2b3c4d5e6f708192a3c'' ''u3''
       \<lparr> reg_email = ''carol@acme.pe'', reg_password = ''secret'', reg_name = ''Carol'',
         reg_type = ''normal'', reg_role = COMPANY, reg_firstName = None, reg_lastName = None,
         reg_companyId = Undefined \<rparr> [alice, bob])
      \<noteq> Inl (BadRequestException ''Se requiere companyId para usuarios de tipo COMPANY'')"
proof -
  let ?r = "\<lparr> reg_email = ''carol@acme.pe'', reg_password = ''secret'', reg_name = ''Carol'',
         reg_type = ''normal'', reg_role = COMPANY, reg_firstName = None, reg_lastName = None,
         reg_companyId = Undefined \<rparr>"
  have 1: "reg_role ?r = COMPANY"
    by simp
  have 2: "isObjectIdString ''65f1a2b3c4d5e6f708192a3b''"
    by (simp add: isObjectIdString_def)
  show ?thesis
    using register_company_never_lacks_companyId [OF 1 2, of "''65f1a2b3c4d5e6f708192a3c''" salted "''u3''"
        "[alice, bob]" signed]
    by blast
qed

subsection \<open>Users before providers\<close>

text \<open>
  C10. For every email that a stored user has, \<open>validateUser\<close> answers from that user's
  record alone (the user when the password matches its hash, \<^verbatim>\<open>null\<close> otherwise): the
  answer is the same for every provider collection and is never a provider, so a
  provider that shares its email with a user cannot authenticate.
\<close>

theorem validateUser_users_first:
  assumes "findOneByEmail e us = Some stored"
  shows "validateUser bcrypt_compare e pw us ps
           = (if bcrypt_compare pw (password stored) then Some (FromUsers stored) else None)
       \<and> validateUser bcrypt_compare e pw us ps = validateUser bcrypt_compare e pw us ps'
       \<and> validateUser bcrypt_compare e pw us ps \<noteq> Some (FromProviders provider)"
  using assms by (simp add: validateUser_def)

theorem validateUser_users_first_witness:
  "validateUser matches ''alice@acme.pe'' ''alice-secret'' [alice, bob] [bob\<lparr>email := ''alice@acme.pe''\<rparr>]
     = Some (FromUsers alice)
   \<and> validateUser matches ''alice@acme.pe'' ''bob-secret'' [alice, bob] [bob\<lparr>email := ''alice@acme.pe''\<rparr>]
     = None
   \<and> matches ''bob-secret'' (password (bob\<lparr>email := ''alice@acme.pe''\<rparr>))"
proof -
  have f: "findOneByEmail ''alice@acme.pe'' [alice, bob] = Some alice"
    by (simp add: findOneByEmail_def alice_def)
  have "matches ''alice-secret'' (password alice)" and "\<not> matches ''bob-secret'' (password alice)"
    by (simp_all add: matches_def alice_def)
  then show ?thesis
    using validateUser_users_first [OF f, of matches "''alice-secret''" "[bob\<lparr>email := ''alice@acme.pe''\<rparr>]"]
      validateUser_users_first [OF f, of matches "''bob-secret''" "[bob\<lparr>email := ''alice@acme.pe''\<rparr>]"]
    by (simp add: matches_def bob_def)
qed

subsection \<open>Login\<close>

text \<open>
  C7. \<open>login\<close> raises UnauthorizedException when the email belongs to no stored user
  and no stored provider, and when the password does not match the hash of the account
  the email designates (the first user with it, else the first provider with it); it
  raises ForbiddenException when the password matches and the account is not active;
  otherwise it returns success with the account's own fields, all but the password, and
  the token signed over the account's id, email, role, names and company id.
\<close>

theorem login_outcomes:
  "(login_email loginDto \<notin> email ` set us \<and> login_email loginDto \<notin> email ` set ps \<longrightarrow>
      login bcrypt_compare sign loginDto us ps = Inl (UnauthorizedException ''Credenciales invalidas''))
   \<and> ((findOneByEmail (login_email loginDto) us = Some account
         \<or> findOneByEmail (login_email loginDto) us = None
            \<and> findOneByEmail (login_email loginDto) ps = Some account) \<longrightarrow>
      login bcrypt_compare sign loginDto us ps
        = (if \<not> bcrypt_compare (login_password loginDto) (password account)
           then Inl (UnauthorizedException ''Credenciales invalidas'')
           else if \<not> isActive account
           then Inl (ForbiddenException ''La cuenta esta desactivada'')
           else Inr \<lparr> success = True,
                      data = \<lparr> data_user =
                                 \<lparr> firstName = firstName account,
                                   lastName = lastName account,
                                   email = email account,
                                   role = role account,
                                   companyId = companyId account,
                                   isActive = isActive account,
                                   userId = userId account,
                                   resp_id = doc_id account \<rparr>,
                               token =
                                 sign \<lparr> sub = doc_id account,
                                        jwt_email = email account,
                                        jwt_role = role account,
                                        jwt_firstName = firstName account,
                                        jwt_lastName = lastName account,
                                        jwt_companyId =
                                          (if truthyJs (companyId account)
                                           then companyId account else Null) \<rparr> \<rparr> \<rparr>))"
proof (intro conjI impI)
  assume "login_email loginDto \<notin> email ` set us \<and> login_email loginDto \<notin> email ` set ps"
  then have "findOneByEmail (login_email loginDto) us = None"
    and "findOneByEmail (login_email loginDto) ps = None"
    by (simp_all add: findOneByEmail_None_iff)
  then show "login bcrypt_compare sign loginDto us ps
             = Inl (UnauthorizedException ''Credenciales invalidas'')"
    by (simp add: login_def validateUser_def)
next
  assume a: "findOneByEmail (login_email loginDto) us = Some account
         \<or> findOneByEmail (login_email loginDto) us = None
            \<and> findOneByEmail (login_email loginDto) ps = Some account"
  have v: "validateUser bcrypt_compare (login_email loginDto) (login_password loginDto) us ps
           = (if \<not> bcrypt_compare (login_password loginDto) (password account) then None
              else Some (if findOneByEmail (login_email loginDto) us = None
                         then FromProviders account else FromUsers account))"
    using a by (auto simp: validateUser_def)
  show "login bcrypt_compare sign loginDto us ps
        = (if \<not> bcrypt_compare (login_password loginDto) (password account)
           then Inl (UnauthorizedException ''Credenciales invalidas'')
           else if \<not> isActive account
           then Inl (ForbiddenException ''La cuenta esta desactivada'')
           else Inr \<lparr> success = True,
                      data = \<lparr> data_user =
                                 \<lparr> firstName = firstName account,
                                   lastName = lastName account,
                                   email = email account,
                                   role = role account,
                                   companyId = companyId account,
                                   isActive = isActive account,
                                   userId = userId account,
                                   resp_id = doc_id account \<rparr>,
                               token =
                                 sign \<lparr> sub = doc_id account,
                                        jwt_email = email account,
                                        jwt_role = role account,
                                        jwt_firstName = firstName account,
                                        jwt_lastName = lastName account,
                                        jwt_companyId =
                                          (if truthyJs (companyId account)
                                           then companyId account else Null) \<rparr> \<rparr> \<rparr>)"
    by (simp add: login_def v Let_def withoutPassword_def generateToken_def)
qed

theorem login_outcomes_witness:
  "login matches signed \<lparr>login_email = ''zoe@acme.pe'', login_password = ''x''\<rparr> [alice] [bob]
     = Inl (UnauthorizedException ''Credenciales invalidas'')
   \<and> login matches signed \<lparr>login_email = ''alice@acme.pe'', login_password = ''wrong''\<rparr> [alice] [bob]
     = Inl (UnauthorizedException ''Credenciales invalidas'')
   \<and> login matches signed \<lparr>login_email = ''bob@otra.pe'', login_password = ''bob-secret''\<rparr> [alice] [bob]
     = Inl (ForbiddenException ''La cuenta esta desactivada'')
   \<and> login matches signed \<lparr>login_email = ''alice@acme.pe'', login_password = ''alice-secret''\<rparr> [alice] [bob]
     = Inr \<lparr> success = True,
             data = \<lparr> data_user =
                        \<lparr> firstName = Some ''Alice'', lastName = Some ''Rojas'',
                          email = ''alice@acme.pe'', role = COMPANY, companyId = Str ''c1'',
                          isActive = True, userId = Some ''a1'', resp_id = ''u1'' \<rparr>,
                      token = ''jwt.u1'' \<rparr> \<rparr>
   \<and> login matches signed \<lparr>login_email = ''bob@otra.pe'', login_password = ''bob-secret''\<rparr> []
        [bob\<lparr>isActive := True\<rparr>]
     = Inr \<lparr> success = True,
             data = \<lparr> data_user =
                        \<lparr> firstName = Some ''Bob'', lastName = Some ''Luna'',
                          email = ''bob@otra.pe'', role = USER, companyId = Str ''c2'',
                          isActive = True, userId = Some ''b1'', resp_id = ''u2'' \<rparr>,
                      token = ''jwt.u2'' \<rparr> \<rparr>"
proof -
  let ?z = "\<lparr>login_email = ''zoe@acme.pe'', login_password = ''x''\<rparr>"
  let ?w = "\<lparr>login_email = ''alice@acme.pe'', login_password = ''wrong''\<rparr>"
  let ?b = "\<lparr>login_email = ''bob@otra.pe'', login_password = ''bob-secret''\<rparr>"
  let ?a = "\<lparr>login_email = ''alice@acme.pe'', login_password = ''alice-secret''\<rparr>"
  have z: "login_email ?z \<notin> email ` set [alice] \<and> login_email ?z \<notin> email ` set [bob]"
    by (simp add: alice_def bob_def)
  have 1: "login matches signed ?z [alice] [bob] = Inl (UnauthorizedException ''Credenciales invalidas'')"
    using login_outcomes [of ?z "[alice]" "[bob]" matches signed alice] z by blast
  have fa: "findOneByEmail ''alice@acme.pe'' [alice] = Some alice"
    by (simp add: findOneByEmail_def alice_def)
  have fb: "findOneByEmail ''bob@otra.pe'' [alice] = None \<and> findOneByEmail ''bob@otra.pe'' [bob] = Some bob"
    by (simp add: findOneByEmail_def alice_def bob_def)
  have fc: "findOneByEmail ''bob@otra.pe'' [] = None
        \<and> findOneByEmail ''bob@otra.pe'' [bob\<lparr>isActive := True\<rparr>] = Some (bob\<lparr>isActive := True\<rparr>)"
    by (simp add: findOneByEmail_def bob_def)
  have 2: "login matches signed ?w [alice] [bob] = Inl (UnauthorizedException ''Credenciales invalidas'')"
    using login_outcomes [of ?w "[alice]" "[bob]" matches signed alice] fa
    by (simp add: matches_def alice_def)
  have 3: "login matches signed ?b [alice] [bob] = Inl (ForbiddenException ''La cuenta esta desactivada'')"
    using login_outcomes [of ?b "[alice]" "[bob]" matches signed bob] fb
    by (simp add: matches_def bob_def)
  have 4: "login matches signed ?a [alice] [bob]
     = Inr \<lparr> success = True,
             data = \<lparr> data_user =
                        \<lparr> firstName = Some ''Alice'', lastName = Some ''Rojas'',
                          email = ''alice@acme.pe'', role = COMPANY, companyId = Str ''c1'',
                          isActive = True, userId = Some ''a1'', resp_id = ''u1'' \<rparr>,
                      token = ''jwt.u1'' \<rparr> \<rparr>"
    using login_outcomes [of ?a "[alice]" "[bob]" matches signed alice] fa
    by (simp add: matches_def alice_def signed_def)
  have 5: "login matches signed ?b [] [bob\<lparr>isActive := True\<rparr>]
     = Inr \<lparr> success = True,
             data = \<lparr> data_user =
                        \<lparr> firstName = Some ''Bob'', lastName = Some ''Luna'',
                          email = ''bob@otra.pe'', role = USER, companyId = Str ''c2'',
                          isActive = True, userId = Some ''b1'', resp_id = ''u2'' \<rparr>,
                      token = ''jwt.u2'' \<rparr> \<rparr>"
    using login_outcomes [of ?b "[]" "[bob\<lparr>isActive := True\<rparr>]" matches signed "bob\<lparr>isActive := True\<rparr>"] fc
    by (simp add: matches_def bob_def signed_def findOneByEmail_def)
  from 1 2 3 4 5 show ?thesis by blast
qed

subsection \<open>The approver of an expense\<close>

text \<open>
  C1. In \<open>ExpenseController.approveInvoice\<close> and \<open>ExpenseController.rejectInvoice\<close>,
  for every request that carries a user, the ApprovalDto handed to the service has as
  userId the user's \<^verbatim>\<open>_id\<close> when that is present (truthy), else the user's
  \<^verbatim>\<open>sub\<close> when that is present, else the userId the body came with; nothing else of the
  DTO changes, and the service is called with the user's companyId.
\<close>

theorem approver_fallback:
  assumes "user req = Some u"
  shows "ExpenseController_approveInvoice approveService i approvalDto req
           = Inr (approveService i
                    (approvalDto\<lparr>a_userId :=
                       (if truthy (req_id u) then req_id u
                        else if truthy (req_sub u) then req_sub u
                        else a_userId approvalDto)\<rparr>)
                    (req_companyId u))
       \<and> ExpenseController_rejectInvoice rejectService i approvalDto req
           = Inr (rejectService i
                    (approvalDto\<lparr>a_userId :=
                       (if truthy (req_id u) then req_id u
                        else if truthy (req_sub u) then req_sub u
                        else a_userId approvalDto)\<rparr>)
                    (req_companyId u))"
  using assms
  by (simp add: ExpenseController_approveInvoice_def ExpenseController_rejectInvoice_def
      stampUserId_def)

theorem approver_fallback_witness:
  "ExpenseController_approveInvoice (\<lambda>i d c. (i, d, c)) ''e1'' \<lparr>a_userId = Some ''body'', a_reason = None\<rparr>
       \<lparr>user = Some \<lparr>req_id = Some ''u1'', req_sub = Some ''s1'', req_companyId = Some ''c1''\<rparr>\<rparr>
     = Inr (''e1'', \<lparr>a_userId = Some ''u1'', a_reason = None\<rparr>, Some ''c1'')
   \<and> ExpenseController_rejectInvoice (\<lambda>i d c. (i, d, c)) ''e1'' \<lparr>a_userId = Some ''body'', a_reason = None\<rparr>
       \<lparr>user = Some \<lparr>req_id = None, req_sub = Some ''s1'', req_companyId = Some ''c1''\<rparr>\<rparr>
     = Inr (''e1'', \<lparr>a_userId = Some ''s1'', a_reason = None\<rparr>, Some ''c1'')
   \<and> ExpenseController_approveInvoice (\<lambda>i d c. (i, d, c)) ''e1'' \<lparr>a_userId = Some ''body'', a_reason = None\<rparr>
       \<lparr>user = Some \<lparr>req_id = None, req_sub = None, req_companyId = Some ''c1''\<rparr>\<rparr>
     = Inr (''e1'', \<lparr>a_userId = Some ''body'', a_reason = None\<rparr>, Some ''c1'')"
proof -
  let ?s = "\<lambda>i d c. (i :: string, d :: ApprovalDto, c :: string option)"
  let ?d = "\<lparr>a_userId = Some ''body'', a_reason = None\<rparr>"
  let ?u1 = "\<lparr>req_id = Some ''u1'', req_sub = Some ''s1'', req_companyId = Some ''c1''\<rparr>"
  let ?u2 = "\<lparr>req_id = None, req_sub = Some ''s1'', req_companyId = Some ''c1''\<rparr>"
  let ?u3 = "\<lparr>req_id = None, req_sub = None, req_companyId = Some ''c1''\<rparr>"
  have 1: "user \<lparr>user = Some ?u1\<rparr> = Some ?u1" and 2: "user \<lparr>user = Some ?u2\<rparr> = Some ?u2"
    and 3: "user \<lparr>user = Some ?u3\<rparr> = Some ?u3"
    by simp_all
  show ?thesis
    using approver_fallback [OF 1, of ?s "''e1''" ?d ?s]
      approver_fallback [OF 2, of ?s "''e1''" ?d ?s]
      approver_fallback [OF 3, of ?s "''e1''" ?d ?s]
    by simp
qed

subsection \<open>Rejections need a reason\<close>

text \<open>
  C2. Rejecting an invoice or an expense requires a reason: every reject request without
  a (truthy) reason ends in BadRequestException with the records unchanged, and every
  successful rejection stores a record that is REJECTED and carries the reason supplied.
  The controllers are those of the sources, the services are modelled from the spec.
\<close>

theorem reject_requires_reason:
  "(\<not> truthy (body_rejectionReason body) \<longrightarrow>
      (\<exists>msg. rejectInvoiceRequest i body invoices = (Inl (BadRequestException msg), invoices)))
   \<and> (rejectInvoiceRequest i body invoices = (Inr rejected, invoices') \<longrightarrow>
      truthy (body_rejectionReason body)
      \<and> inv_rejectionReason rejected = body_rejectionReason body
      \<and> inv_status rejected = REJECTED
      \<and> rejected \<in> set invoices')
   \<and> (user req = Some u \<and> \<not> truthy (a_reason approvalDto) \<longrightarrow>
      (\<exists>msg. rejectExpenseRequest i approvalDto req expenses
               = (Inl (BadRequestException msg), expenses)))
   \<and> (rejectExpenseRequest i approvalDto req expenses = (Inr rejectedExpense, expenses') \<longrightarrow>
      truthy (a_reason approvalDto)
      \<and> exp_rejectionReason rejectedExpense = a_reason approvalDto
      \<and> exp_status rejectedExpense = REJECTED
      \<and> rejectedExpense \<in> set expenses')"
proof (intro conjI impI)
  assume "\<not> truthy (body_rejectionReason body)"
  then show "\<exists>msg. rejectInvoiceRequest i body invoices = (Inl (BadRequestException msg), invoices)"
    by (simp add: rejectInvoiceRequest_def InvoiceController_rejectInvoice_def
        InvoiceService_rejectInvoice_def)
next
  assume a: "rejectInvoiceRequest i body invoices = (Inr rejected, invoices')"
  then show "truthy (body_rejectionReason body)"
    and "inv_rejectionReason rejected = body_rejectionReason body"
    and "inv_status rejected = REJECTED"
    by (auto simp: rejectInvoiceRequest_def InvoiceController_rejectInvoice_def
        InvoiceService_rejectInvoice_def Let_def split: if_splits option.splits)
  from a show "rejected \<in> set invoices'"
    by (auto simp: rejectInvoiceRequest_def InvoiceController_rejectInvoice_def
        InvoiceService_rejectInvoice_def Let_def replaceFirst_mem split: if_splits option.splits)
next
  assume "user req = Some u \<and> \<not> truthy (a_reason approvalDto)"
  then show "\<exists>msg. rejectExpenseRequest i approvalDto req expenses
               = (Inl (BadRequestException msg), expenses)"
    by (auto simp: rejectExpenseRequest_def ExpenseController_rejectInvoice_def
        ExpenseService_rejectInvoice_def stampUserId_def)
next
  assume a: "rejectExpenseRequest i approvalDto req expenses = (Inr rejectedExpense, expenses')"
  then obtain u where u: "user req = Some u"
    by (cases "user req")
      (auto simp: rejectExpenseRequest_def ExpenseController_rejectInvoice_def)
  have r: "a_reason (stampUserId req approvalDto) = a_reason approvalDto"
    by (simp add: stampUserId_def)
  from a u have s: "ExpenseService_rejectInvoice i (stampUserId req approvalDto) (req_companyId u) expenses
                    = (Inr rejectedExpense, expenses')"
    by (simp add: rejectExpenseRequest_def ExpenseController_rejectInvoice_def)
  then show "truthy (a_reason approvalDto)"
    and "exp_rejectionReason rejectedExpense = a_reason approvalDto"
    and "exp_status rejectedExpense = REJECTED"
    using r
    by (auto simp: ExpenseService_rejectInvoice_def Let_def split: if_splits option.splits)
  from s show "rejectedExpense \<in> set expenses'"
    by (auto simp: ExpenseService_rejectInvoice_def Let_def replaceFirst_mem
        split: if_splits option.splits)
qed

theorem reject_requires_reason_witness:
  "(\<exists>msg. rejectInvoiceRequest ''f1'' \<lparr>body_rejectionReason = None\<rparr>
       [\<lparr>inv_id = ''f1'', inv_status = PENDING, inv_rejectionReason = None\<rparr>]
     = (Inl (BadRequestException msg),
        [\<lparr>inv_id = ''f1'', inv_status = PENDING, inv_rejectionReason = None\<rparr>]))
   \<and> \<lparr>inv_id = ''f1'', inv_status = REJECTED, inv_rejectionReason = Some ''duplicada''\<rparr>
       \<in> set [\<lparr>inv_id = ''f1'', inv_status = REJECTED, inv_rejectionReason = Some ''duplicada''\<rparr>]
   \<and> (\<exists>msg. rejectExpenseRequest ''g1'' \<lparr>a_userId = None, a_reason = Some []\<rparr>
       \<lparr>user = Some \<lparr>req_id = None, req_sub = Some ''s1'', req_companyId = Some ''c1''\<rparr>\<rparr>
       [\<lparr>exp_id = ''g1'', exp_companyId = Some ''c1'', exp_status = PENDING,
         exp_rejectedBy = None, exp_rejectionReason = None\<rparr>]
     = (Inl (BadRequestException msg),
        [\<lparr>exp_id = ''g1'', exp_companyId = Some ''c1'', exp_status = PENDING,
          exp_rejectedBy = None, exp_rejectionReason = None\<rparr>]))
   \<and> exp_rejectionReason \<lparr>exp_id = ''g1'', exp_companyId = Some ''c1'', exp_status = REJECTED,
          exp_rejectedBy = Some ''s1'', exp_rejectionReason = Some ''sin sustento''\<rparr>
       = Some ''sin sustento''"
proof -
  let ?f = "\<lparr>inv_id = ''f1'', inv_status = PENDING, inv_rejectionReason = None\<rparr>"
  let ?f' = "\<lparr>inv_id = ''f1'', inv_status = REJECTED, inv_rejectionReason = Some ''duplicada''\<rparr>"
  let ?g = "\<lparr>exp_id = ''g1'', exp_companyId = Some ''c1'', exp_status = PENDING,
         exp_rejectedBy = None, exp_rejectionReason = None\<rparr>"
  let ?g' = "\<lparr>exp_id = ''g1'', exp_companyId = Some ''c1'', exp_status = REJECTED,
          exp_rejectedBy = Some ''s1'', exp_rejectionReason = Some ''sin sustento''\<rparr>"
  let ?u = "\<lparr>req_id = None, req_sub = Some ''s1'', req_companyId = Some ''c1''\<rparr>"
  have 1: "\<not> truthy (body_rejectionReason \<lparr>body_rejectionReason = None\<rparr>)"
    by simp
  have 2: "rejectInvoiceRequest ''f1'' \<lparr>body_rejectionReason = Some ''duplicada''\<rparr> [?f] = (Inr ?f', [?f'])"
    by (simp add: rejectInvoiceRequest_def InvoiceController_rejectInvoice_def
        InvoiceService_rejectInvoice_def Let_def)
  have 3: "user \<lparr>user = Some ?u\<rparr> = Some ?u \<and> \<not> truthy (a_reason \<lparr>a_userId = None, a_reason = Some []\<rparr>)"
    by simp
  have 4: "rejectExpenseRequest ''g1'' \<lparr>a_userId = None, a_reason = Some ''sin sustento''\<rparr>
             \<lparr>user = Some ?u\<rparr> [?g] = (Inr ?g', [?g'])"
    by (simp add: rejectExpenseRequest_def ExpenseController_rejectInvoice_def
        ExpenseService_rejectInvoice_def stampUserId_def Let_def)
  have a: "\<exists>msg. rejectInvoiceRequest ''f1'' \<lparr>body_rejectionReason = None\<rparr> [?f]
     = (Inl (BadRequestException msg), [?f])"
    using reject_requires_reason [where body = "\<lparr>body_rejectionReason = None\<rparr>" and i = "''f1''"
        and invoices = "[?f]"] 1
    by blast
  have b: "?f' \<in> set [?f']"
    using reject_requires_reason [where body = "\<lparr>body_rejectionReason = Some ''duplicada''\<rparr>"
        and i = "''f1''" and invoices = "[?f]" and rejected = ?f' and invoices' = "[?f']"] 2
    by blast
  have c: "\<exists>msg. rejectExpenseRequest ''g1'' \<lparr>a_userId = None, a_reason = Some []\<rparr> \<lparr>user = Some ?u\<rparr> [?g]
     = (Inl (BadRequestException msg), [?g])"
    using reject_requires_reason [where req = "\<lparr>user = Some ?u\<rparr>" and u = ?u
        and approvalDto = "\<lparr>a_userId = None, a_reason = Some []\<rparr>" and i = "''g1''"
        and expenses = "[?g]"] 3
    by blast
  have d: "exp_rejectionReason ?g' = Some ''sin sustento''"
    using reject_requires_reason [where req = "\<lparr>user = Some ?u\<rparr>"
        and approvalDto = "\<lparr>a_userId = None, a_reason = Some ''sin sustento''\<rparr>" and i = "''g1''"
        and expenses = "[?g]" and rejectedExpense = ?g' and expenses' = "[?g']"] 4
    by simp
  from a b c d show ?thesis
    by blast
qed

end
